theory Spec2Isabelle
  imports Complex_Main
begin

section \<open>Scene conversion of scripts/tools.py\<close>

text \<open>
  The module hands cameras, meshes and lights of the host (Blender's \<open>bpy\<close>) to the
  viewer library (\<open>gl\<close>, the compiled module \<open>pylib.GlslViewer\<close>). Scalars are
  Python floats; the converters only copy and negate them, which is exact on floats, so
  they are modelled as \<open>real\<close>. Host functions that compute with floats
  (\<open>Matrix.inverted\<close>, the camera projection, the triangulation) are not part of
  the module and are taken as parameters or as fields of the host objects. State of
  the host and of the interpreter that the module reads or writes (the render
  settings, the standard output, the open files) is passed explicitly.
\<close>

subsection \<open>Host vectors and matrices\<close>

datatype vec2 = Vec2 real real
datatype vec3 = Vec3 real real real
datatype vec4 = Vec4 real real real real
datatype mat4 = Mat4 vec4 vec4 vec4 vec4

text \<open>
  \<open>v[i]\<close> on the host's fixed-size vectors. The module only ever indexes with the
  literals that are in range; an index out of range (an IndexError in Python) is left
  unspecified and never evaluated.
\<close>

fun vec2_at :: "vec2 \<Rightarrow> nat \<Rightarrow> real" where
  "vec2_at (Vec2 a b) i = (if i = 0 then a else if i = 1 then b else undefined)"

fun vec3_at :: "vec3 \<Rightarrow> nat \<Rightarrow> real" where
  "vec3_at (Vec3 a b c) i =
     (if i = 0 then a else if i = 1 then b else if i = 2 then c else undefined)"

fun vec4_at :: "vec4 \<Rightarrow> nat \<Rightarrow> real" where
  "vec4_at (Vec4 a b c d) i =
     (if i = 0 then a else if i = 1 then b else if i = 2 then c
      else if i = 3 then d else undefined)"

fun mat4_row :: "mat4 \<Rightarrow> nat \<Rightarrow> vec4" where
  "mat4_row (Mat4 r0 r1 r2 r3) i =
     (if i = 0 then r0 else if i = 1 then r1 else if i = 2 then r2
      else if i = 3 then r3 else undefined)"

text \<open>\<open>m[r][c]\<close>: the host's matrices are addressed row first.\<close>

definition mat4_at :: "mat4 \<Rightarrow> nat \<Rightarrow> nat \<Rightarrow> real" where
  "mat4_at m r c = vec4_at (mat4_row m r) c"

definition identity4 :: mat4 where
  "identity4 = Mat4 (Vec4 1 0 0 0) (Vec4 0 1 0 0) (Vec4 0 0 1 0) (Vec4 0 0 0 1)"

text \<open>
  \<open>np.array(mat)\<close> copies the sixteen components into an array that is indexed the
  same way.
\<close>

definition np_array :: "mat4 \<Rightarrow> mat4" where
  "np_array mat = mat"

definition bl2npMatrix :: "mat4 \<Rightarrow> mat4" where
  "bl2npMatrix mat = np_array mat"

subsection \<open>Errors\<close>

datatype py_error =
  ValueError | IndexError | TypeError | UnicodeEncodeError | FileNotFoundError | PermissionError

subsection \<open>Host objects\<close>

text \<open>
  \<open>bpy.types.Object\<close>: every scene object has a world matrix and a location. A
  camera object adds its camera projection, a mesh object its mesh data.
\<close>

record bl_object =
  matrix_world :: mat4
  location :: vec3

text \<open>
  The values that the module passes to a host method: Python integers and floats. A
  dependency graph of the host is the third kind of value that the method below takes.
\<close>

datatype py_value = PyInt int | PyFloat real | PyDepsgraph

text \<open>
  The host's method \<open>Object.calc_matrix_camera(depsgraph, x, y, scale_x, scale_y)\<close>.
  The module needs Python 3.10 (the annotation \<open>RegionView3D | Object\<close> of
  \<open>bl2veraCamera\<close> is evaluated when the function is defined), and every host with
  that Python takes the dependency graph as the first positional argument of the
  method: a call whose first positional argument is not a dependency graph raises
  TypeError. \<open>camera_projection\<close> is what the host computes for the object from the
  arguments that follow the dependency graph, or the error it raises on them.
\<close>

record bl_camera_object = bl_object +
  camera_projection :: "py_value list \<Rightarrow> py_error + mat4"

fun calc_matrix_camera :: "bl_camera_object \<Rightarrow> py_value list \<Rightarrow> py_error + mat4" where
  "calc_matrix_camera ob (PyDepsgraph # args) = camera_projection ob args"
| "calc_matrix_camera ob args = Inl TypeError"

text \<open>\<open>bpy.types.RegionView3D\<close>, the state of a viewport.\<close>

record region_view3d =
  view_matrix :: mat4
  window_matrix :: mat4

text \<open>
  \<open>bpy.context.scene.render\<close>: global state of the host, not an argument of the
  converters. The four fields are the ones the module reads; the extension part of the
  record stands for every other render setting.
\<close>

record render_settings =
  resolution_x :: int
  resolution_y :: int
  pixel_aspect_x :: real
  pixel_aspect_y :: real

text \<open>
  The argument \<open>source\<close> of the camera converter, as the two \<open>isinstance\<close> tests see
  it. Any other Python value is kept as the outcome of formatting it in the f-string
  \<open>f"...{source}"\<close>: the text that its \<open>__format__\<close> returns, or the error that
  formatting it raises.
\<close>

datatype camera_source =
    RegionView3D region_view3d
  | Object bl_camera_object
  | Other "py_error + string"

text \<open>
  \<open>print(line)\<close> on the standard output of the process, which is state of the
  interpreter outside the module: \<open>stdout_error\<close> tells for each text whether writing
  it raises (a closed stream, a text that the stream's encoding cannot encode). The
  result is the error, or the line that was written.
\<close>

definition py_print :: "(string \<Rightarrow> py_error option) \<Rightarrow> string \<Rightarrow> py_error + string list" where
  "py_print stdout_error line =
     (case stdout_error line of Some e \<Rightarrow> Inl e | None \<Rightarrow> Inr [line])"

subsection \<open>The viewer library's camera\<close>

text \<open>
  Modelled from the spec: the class \<open>gl.Camera\<close> of the compiled module
  \<open>pylib.GlslViewer\<close> is not under src/. The spec gives its interface: two transform
  setters taking 16 scalar arguments each, a viewport-size setter and a scale setter.
  The model keeps the arguments of the last call of each setter, in argument order;
  \<open>None\<close> is a setter that was not called.
\<close>

record gl_camera =
  transform_matrix :: "real list option"
  projection :: "real list option"
  viewport :: "(int \<times> int) option"
  scale :: "real option"

definition gl_Camera :: gl_camera where
  "gl_Camera = \<lparr>transform_matrix = None, projection = None, viewport = None, scale = None\<rparr>"

definition setTransformMatrix ::
  "gl_camera \<Rightarrow> real \<Rightarrow> real \<Rightarrow> real \<Rightarrow> real \<Rightarrow> real \<Rightarrow> real \<Rightarrow> real \<Rightarrow> real \<Rightarrow>
   real \<Rightarrow> real \<Rightarrow> real \<Rightarrow> real \<Rightarrow> real \<Rightarrow> real \<Rightarrow> real \<Rightarrow> real \<Rightarrow> gl_camera" where
  "setTransformMatrix cam a0 a1 a2 a3 a4 a5 a6 a7 a8 a9 a10 a11 a12 a13 a14 a15 =
     cam\<lparr>transform_matrix :=
       Some [a0, a1, a2, a3, a4, a5, a6, a7, a8, a9, a10, a11, a12, a13, a14, a15]\<rparr>"

definition setProjection ::
  "gl_camera \<Rightarrow> real \<Rightarrow> real \<Rightarrow> real \<Rightarrow> real \<Rightarrow> real \<Rightarrow> real \<Rightarrow> real \<Rightarrow> real \<Rightarrow>
   real \<Rightarrow> real \<Rightarrow> real \<Rightarrow> real \<Rightarrow> real \<Rightarrow> real \<Rightarrow> real \<Rightarrow> real \<Rightarrow> gl_camera" where
  "setProjection cam a0 a1 a2 a3 a4 a5 a6 a7 a8 a9 a10 a11 a12 a13 a14 a15 =
     cam\<lparr>projection :=
       Some [a0, a1, a2, a3, a4, a5, a6, a7, a8, a9, a10, a11, a12, a13, a14, a15]\<rparr>"

definition setViewport :: "gl_camera \<Rightarrow> int \<Rightarrow> int \<Rightarrow> gl_camera" where
  "setViewport cam w h = cam\<lparr>viewport := Some (w, h)\<rparr>"

definition setScale :: "gl_camera \<Rightarrow> real \<Rightarrow> gl_camera" where
  "setScale cam s = cam\<lparr>scale := Some s\<rparr>"

subsection \<open>bl2veraCamera\<close>

text \<open>
  The result is the text printed on standard output together with the outcome:
  \<open>Inl e\<close> when \<open>e\<close> is raised, \<open>Inr None\<close> for \<open>return None\<close>, \<open>Inr (Some cam)\<close>
  for \<open>return cam\<close>. The \<open>if\<close>/\<open>elif\<close>/\<open>else\<close> either leaves the function
  (\<open>Inl\<close> of the result) or goes on with the two matrices (\<open>Inr\<close>).

  \<open>inverted\<close> is the host's \<open>Matrix.inverted()\<close>, which raises ValueError on a matrix
  without inverse (\<open>None\<close>); \<open>stdout_error\<close> is the state of the standard output and
  \<open>render\<close> the value of \<open>bpy.context.scene.render\<close> when the converter is called.
  \<open>view_mat\<close> and \<open>projection_mat\<close> are the source's local variables
  \<open>view_matrix\<close> and \<open>projection_matrix\<close>. In the second branch the four render
  settings are passed as the positional arguments of \<open>calc_matrix_camera\<close>, as the
  source passes them; in the last branch the f-string is formatted first and then
  printed, and an error of either leaves the function.
\<close>

definition bl2veraCamera ::
  "(mat4 \<Rightarrow> mat4 option) \<Rightarrow> (string \<Rightarrow> py_error option) \<Rightarrow> 'r render_settings_scheme \<Rightarrow>
   camera_source \<Rightarrow> int \<times> int \<Rightarrow> string list \<times> (py_error + gl_camera option)" where
  "bl2veraCamera inverted stdout_error render source img_dims =
    (let cam = gl_Camera;
         branch =
           (case source of
              RegionView3D rv \<Rightarrow>
                (let projection_mat = np_array (window_matrix rv) in
                 case inverted (view_matrix rv) of
                   None \<Rightarrow> Inl ([], Inl ValueError)
                 | Some inv_mat \<Rightarrow> Inr (np_array inv_mat, projection_mat))
            | Object ob \<Rightarrow>
                (case inverted (matrix_world ob) of
                   None \<Rightarrow> Inl ([], Inl ValueError)
                 | Some view_mat \<Rightarrow>
                     (case calc_matrix_camera ob
                         [PyInt (resolution_x render), PyInt (resolution_y render),
                          PyFloat (pixel_aspect_x render), PyFloat (pixel_aspect_y render)] of
                        Inl e \<Rightarrow> Inl ([], Inl e)
                      | Inr projection_mat \<Rightarrow> Inr (view_mat, projection_mat)))
            | Other formatted \<Rightarrow>
                (case formatted of
                   Inl e \<Rightarrow> Inl ([], Inl e)
                 | Inr text \<Rightarrow>
                     (case py_print stdout_error (''INVALID CAMERA SOURCE: '' @ text) of
                        Inl e \<Rightarrow> Inl ([], Inl e)
                      | Inr printed \<Rightarrow> Inl (printed, Inr None))))
     in case branch of
          Inl exit \<Rightarrow> exit
        | Inr (view_mat, projection_mat) \<Rightarrow>
            (let cam = setTransformMatrix cam
                   (mat4_at view_mat 0 0) (mat4_at view_mat 2 0)
                   (mat4_at view_mat 1 0) (mat4_at view_mat 3 0)
                   (mat4_at view_mat 0 1) (mat4_at view_mat 2 1)
                   (mat4_at view_mat 1 1) (mat4_at view_mat 3 1)
                   (mat4_at view_mat 0 2) (mat4_at view_mat 2 2)
                   (mat4_at view_mat 1 2) (mat4_at view_mat 3 2)
                   (mat4_at view_mat 0 3) (mat4_at view_mat 2 3)
                   (mat4_at view_mat 1 3) (mat4_at view_mat 3 3);
                 cam = setProjection cam
                   (mat4_at projection_mat 0 0) (mat4_at projection_mat 1 0)
                   (mat4_at projection_mat 2 0) (mat4_at projection_mat 3 0)
                   (mat4_at projection_mat 0 1) (mat4_at projection_mat 1 1)
                   (mat4_at projection_mat 2 1) (mat4_at projection_mat 3 1)
                   (mat4_at projection_mat 0 2) (mat4_at projection_mat 1 2)
                   (mat4_at projection_mat 2 2) (mat4_at projection_mat 3 2)
                   (mat4_at projection_mat 0 3) (mat4_at projection_mat 1 3)
                   (mat4_at projection_mat 2 3) (mat4_at projection_mat 3 3);
                 cam = setViewport cam (fst img_dims) (snd img_dims);
                 cam = setScale cam 0.5
             in ([], Inr (Some cam))))"

subsection \<open>Host meshes\<close>

text \<open>
  A vertex of \<open>bl_mesh.data.vertices\<close> with its local-space position \<open>co\<close> and
  \<open>normal\<close>; a loop triangle is the triple \<open>tri.vertices\<close> of vertex indices.
  \<open>uv_layers_active\<close> is \<open>bl_mesh.data.uv_layers.active\<close>: \<open>None\<close>, or the \<open>uv\<close>
  entries of the layer's per-corner \<open>data\<close>. \<open>polygons\<close> stands for the faces the
  host triangulates, and \<open>loop_triangles\<close> is the host's cache of the triangulation,
  which \<open>calc_loop_triangles()\<close> fills.
\<close>

record bl_vertex =
  co :: vec3
  normal :: vec3

record 'p bl_mesh_data =
  vertices :: "bl_vertex list"
  polygons :: 'p
  loop_triangles :: "(nat \<times> nat \<times> nat) list"
  uv_layers_active :: "vec2 list option"

record 'p bl_mesh_object = bl_object +
  data :: "'p bl_mesh_data"

text \<open>
  \<open>bl_mesh.data.calc_loop_triangles()\<close> changes the argument: the cache is replaced
  by the host's triangulation \<open>triangulate\<close> of the vertices and faces.
\<close>

definition calc_loop_triangles ::
  "(bl_vertex list \<Rightarrow> 'p \<Rightarrow> (nat \<times> nat \<times> nat) list) \<Rightarrow> 'p bl_mesh_object \<Rightarrow> 'p bl_mesh_object"
  where
  "calc_loop_triangles triangulate bl_mesh =
     bl_mesh\<lparr>data := (data bl_mesh)\<lparr>loop_triangles :=
       triangulate (vertices (data bl_mesh)) (polygons (data bl_mesh))\<rparr>\<rparr>"

subsection \<open>The viewer library's mesh and light\<close>

text \<open>
  Modelled from the spec: the class \<open>gl.Mesh\<close> of \<open>pylib.GlslViewer\<close> is not under
  src/. The spec gives its interface: append-vertex, append-normal, append-texcoord,
  append-index, a vertex-count query and a tangent computation trigger. The model keeps
  what was appended, in order (\<open>gl_geometry\<close>); the vertex count is the number of
  appended vertices. The tangent computation is the library's own: the model keeps, for
  every call of \<open>computeTangents\<close> in call order, the geometry that the mesh held when
  the call was made.
\<close>

record gl_geometry =
  gl_vertices :: "(real \<times> real \<times> real) list"
  gl_normals :: "(real \<times> real \<times> real) list"
  gl_indices :: "nat list"
  gl_texcoords :: "(real \<times> real) list"

record gl_mesh = gl_geometry +
  gl_tangents :: "gl_geometry list"

definition gl_Mesh :: gl_mesh where
  "gl_Mesh = \<lparr>gl_vertices = [], gl_normals = [], gl_indices = [], gl_texcoords = [],
     gl_tangents = []\<rparr>"

definition addVertex :: "gl_mesh \<Rightarrow> real \<Rightarrow> real \<Rightarrow> real \<Rightarrow> gl_mesh" where
  "addVertex mesh x y z = mesh\<lparr>gl_vertices := gl_vertices mesh @ [(x, y, z)]\<rparr>"

definition addNormal :: "gl_mesh \<Rightarrow> real \<Rightarrow> real \<Rightarrow> real \<Rightarrow> gl_mesh" where
  "addNormal mesh x y z = mesh\<lparr>gl_normals := gl_normals mesh @ [(x, y, z)]\<rparr>"

definition addIndex :: "gl_mesh \<Rightarrow> nat \<Rightarrow> gl_mesh" where
  "addIndex mesh i = mesh\<lparr>gl_indices := gl_indices mesh @ [i]\<rparr>"

definition addTexCoord :: "gl_mesh \<Rightarrow> real \<Rightarrow> real \<Rightarrow> gl_mesh" where
  "addTexCoord mesh u v = mesh\<lparr>gl_texcoords := gl_texcoords mesh @ [(u, v)]\<rparr>"

definition getVerticesTotal :: "gl_mesh \<Rightarrow> nat" where
  "getVerticesTotal mesh = length (gl_vertices mesh)"

definition computeTangents :: "gl_mesh \<Rightarrow> gl_mesh" where
  "computeTangents mesh =
     mesh\<lparr>gl_tangents := gl_tangents mesh @
       [\<lparr>gl_vertices = gl_vertices mesh, gl_normals = gl_normals mesh,
         gl_indices = gl_indices mesh, gl_texcoords = gl_texcoords mesh\<rparr>]\<rparr>"

text \<open>
  Modelled from the spec: the class \<open>gl.Light\<close> of \<open>pylib.GlslViewer\<close> is not under
  src/; the spec gives it a position setter. The model keeps the arguments of the last
  call.
\<close>

record gl_light =
  position :: "(real \<times> real \<times> real) option"

definition gl_Light :: gl_light where
  "gl_Light = \<lparr>position = None\<rparr>"

definition setPosition :: "gl_light \<Rightarrow> real \<Rightarrow> real \<Rightarrow> real \<Rightarrow> gl_light" where
  "setPosition light x y z = light\<lparr>position := Some (x, y, z)\<rparr>"

subsection \<open>bl2veraMesh\<close>

text \<open>The loop over \<open>bl_mesh.data.vertices\<close>.\<close>

fun vertex_loop :: "bl_vertex list \<Rightarrow> gl_mesh \<Rightarrow> gl_mesh" where
  "vertex_loop [] mesh = mesh"
| "vertex_loop (v # vs) mesh =
     (let p = co v;
          mesh = addVertex mesh (- vec3_at p 0) (- vec3_at p 1) (- vec3_at p 2);
          n = normal v;
          mesh = addNormal mesh (- vec3_at n 0) (- vec3_at n 1) (- vec3_at n 2)
      in vertex_loop vs mesh)"

text \<open>The loop over \<open>bl_mesh.data.loop_triangles\<close>.\<close>

fun triangle_loop :: "(nat \<times> nat \<times> nat) list \<Rightarrow> gl_mesh \<Rightarrow> gl_mesh" where
  "triangle_loop [] mesh = mesh"
| "triangle_loop ((v0, v1, v2) # tris) mesh =
     (let mesh = addIndex mesh v0;
          mesh = addIndex mesh v1;
          mesh = addIndex mesh v2
      in triangle_loop tris mesh)"

text \<open>
  The loop over \<open>range(mesh.getVerticesTotal())\<close>; the range is computed once, before
  the loop. \<open>uv_data[i]\<close> raises IndexError when the layer has no entry \<open>i\<close>.
\<close>

fun texcoord_loop :: "vec2 list \<Rightarrow> nat list \<Rightarrow> gl_mesh \<Rightarrow> py_error + gl_mesh" where
  "texcoord_loop uv_data [] mesh = Inr mesh"
| "texcoord_loop uv_data (i # rest) mesh =
     (if i < length uv_data
      then (let uv = uv_data ! i;
                mesh = addTexCoord mesh (vec2_at uv 0) (vec2_at uv 1)
            in texcoord_loop uv_data rest mesh)
      else Inl IndexError)"

text \<open>
  The converter returns the outcome (\<open>Inl e\<close> when \<open>e\<close> is raised, \<open>Inr mesh\<close> for
  \<open>return mesh\<close>) and its argument as \<open>calc_loop_triangles()\<close> has left it. The
  world matrix \<open>W\<close> is read, and the source derives the normal matrix \<open>N\<close> from it
  with host functions that do not raise (\<open>inverted_safe\<close>, \<open>transposed\<close>,
  \<open>to_3x3\<close>); neither is used afterwards.
\<close>

definition bl2veraMesh ::
  "(bl_vertex list \<Rightarrow> 'p \<Rightarrow> (nat \<times> nat \<times> nat) list) \<Rightarrow> 'p bl_mesh_object \<Rightarrow>
   (py_error + gl_mesh) \<times> 'p bl_mesh_object" where
  "bl2veraMesh triangulate bl_mesh =
    (let mesh = gl_Mesh;
         W = matrix_world bl_mesh;
         bl_mesh = calc_loop_triangles triangulate bl_mesh;
         mesh = vertex_loop (vertices (data bl_mesh)) mesh;
         mesh = triangle_loop (loop_triangles (data bl_mesh)) mesh
     in case uv_layers_active (data bl_mesh) of
          None \<Rightarrow> (Inr mesh, bl_mesh)
        | Some uv_data \<Rightarrow>
            (case texcoord_loop uv_data [0..<getVerticesTotal mesh] mesh of
               Inl e \<Rightarrow> (Inl e, bl_mesh)
             | Inr mesh \<Rightarrow> (Inr (computeTangents mesh), bl_mesh)))"

subsection \<open>bl2veraLight\<close>

definition bl2veraLight :: "bl_object \<Rightarrow> gl_light" where
  "bl2veraLight bl_light =
    (let W = matrix_world bl_light;
         loc = location bl_light;
         light = gl_Light;
         light = setPosition light (- vec3_at loc 0) (- vec3_at loc 2) (- vec3_at loc 1)
     in light)"

subsection \<open>file_exist\<close>

text \<open>
  The part of the operating system that \<open>open\<close> and \<open>close\<close> touch: for each path
  whether opening it for reading raises (\<open>open_error\<close>), and the handles that are
  open. \<open>py_open\<close> is the built-in \<open>open(path, 'r')\<close>, \<open>py_close\<close> is
  \<open>file.close()\<close>.
\<close>

record os_state =
  open_error :: "string \<Rightarrow> py_error option"
  open_handles :: "nat list"

definition py_open :: "os_state \<Rightarrow> string \<Rightarrow> py_error + (nat \<times> os_state)" where
  "py_open os path =
     (case open_error os path of
        Some e \<Rightarrow> Inl e
      | None \<Rightarrow>
          (let file = length (open_handles os)
           in Inr (file, os\<lparr>open_handles := file # open_handles os\<rparr>)))"

definition py_close :: "os_state \<Rightarrow> nat \<Rightarrow> os_state" where
  "py_close os file = os\<lparr>open_handles := remove1 file (open_handles os)\<rparr>"

text \<open>
  \<open>abspath\<close> is the host's \<open>bpy.path.abspath\<close>, which expands the path or raises.
  The bare \<open>except\<close> catches whatever the \<open>try\<close> block raises.
\<close>

definition file_exist ::
  "(string \<Rightarrow> py_error + string) \<Rightarrow> os_state \<Rightarrow> string \<Rightarrow> bool \<times> os_state" where
  "file_exist abspath os filename =
     (case abspath filename of
        Inl e \<Rightarrow> (False, os)
      | Inr path \<Rightarrow>
          (case py_open os path of
             Inl e \<Rightarrow> (False, os)
           | Inr (file, os) \<Rightarrow>
               (let os = py_close os file in (True, os))))"

section \<open>Notions used by the properties\<close>

text \<open>
  The sixteen arguments of a transform setter are written in the source as four groups
  of four; \<open>group_of args k\<close> is group \<open>k\<close>.
\<close>

definition group_of :: "real list \<Rightarrow> nat \<Rightarrow> real list" where
  "group_of args k = take 4 (drop (4 * k) args)"

text \<open>
  The argument list that the specification describes for both setters: for each row
  \<open>r\<close> in 0..3 the components \<open>source[r][0]\<close>, \<open>source[r][2]\<close>, \<open>source[r][1]\<close>,
  \<open>source[r][3]\<close>. This definition follows the specification's words, not the source.
\<close>

definition spec_axis_swap :: "mat4 \<Rightarrow> real list" where
  "spec_axis_swap m =
     concat (map (\<lambda>r. [mat4_at m r 0, mat4_at m r 2, mat4_at m r 1, mat4_at m r 3]) [0..<4])"

text \<open>
  Sixteen emitted values read back as a matrix, four per row: as they stand
  (\<open>reassemble\<close>), and with the specification's inverse column mapping, which swaps
  columns 1 and 2 back (\<open>reassemble_swap_back\<close>).
\<close>

definition reassemble :: "real list \<Rightarrow> mat4" where
  "reassemble a =
     Mat4 (Vec4 (a ! 0) (a ! 1) (a ! 2) (a ! 3)) (Vec4 (a ! 4) (a ! 5) (a ! 6) (a ! 7))
          (Vec4 (a ! 8) (a ! 9) (a ! 10) (a ! 11)) (Vec4 (a ! 12) (a ! 13) (a ! 14) (a ! 15))"

definition reassemble_swap_back :: "real list \<Rightarrow> mat4" where
  "reassemble_swap_back a =
     Mat4 (Vec4 (a ! 0) (a ! 2) (a ! 1) (a ! 3)) (Vec4 (a ! 4) (a ! 6) (a ! 5) (a ! 7))
          (Vec4 (a ! 8) (a ! 10) (a ! 9) (a ! 11)) (Vec4 (a ! 12) (a ! 14) (a ! 13) (a ! 15))"

text \<open>
  The active UV layer, when there is one, has an entry for every vertex index: the
  condition under which \<open>uv_data[i]\<close> does not raise in the mesh converter.
\<close>

definition uv_aligned :: "'p bl_mesh_object \<Rightarrow> bool" where
  "uv_aligned bl_mesh =
     (case uv_layers_active (data bl_mesh) of
        None \<Rightarrow> True
      | Some uv_data \<Rightarrow> length (vertices (data bl_mesh)) \<le> length uv_data)"

text \<open>The emitted positions and normals of a mesh, read as host vertices again.\<close>

definition as_bl_vertices :: "gl_mesh \<Rightarrow> bl_vertex list" where
  "as_bl_vertices mesh =
     map (\<lambda>((x, y, z), (nx, ny, nz)). \<lparr>co = Vec3 x y z, normal = Vec3 nx ny nz\<rparr>)
       (zip (gl_vertices mesh) (gl_normals mesh))"

section \<open>Concrete inputs\<close>

text \<open>
  The host's \<open>Matrix.inverted()\<close> on the matrices of the examples, which are pure
  translations (the identity among them): the inverse translates back. On any other
  matrix this stand-in answers as the host does on a singular one.
\<close>

definition translation :: "real \<Rightarrow> real \<Rightarrow> real \<Rightarrow> mat4" where
  "translation a b c = Mat4 (Vec4 1 0 0 a) (Vec4 0 1 0 b) (Vec4 0 0 1 c) (Vec4 0 0 0 1)"

definition inverted_translation :: "mat4 \<Rightarrow> mat4 option" where
  "inverted_translation m =
     (let a = mat4_at m 0 3; b = mat4_at m 1 3; c = mat4_at m 2 3
      in if m = translation a b c then Some (translation (- a) (- b) (- c)) else None)"

definition example_matrix :: mat4 where
  "example_matrix = Mat4 (Vec4 1 2 3 4) (Vec4 5 6 7 8) (Vec4 9 10 11 12) (Vec4 13 14 15 16)"

definition example_region :: region_view3d where
  "example_region = \<lparr>view_matrix = translation 1 2 3, window_matrix = example_matrix\<rparr>"

definition identity_region :: region_view3d where
  "identity_region = \<lparr>view_matrix = identity4, window_matrix = identity4\<rparr>"

definition example_render :: render_settings where
  "example_render =
     \<lparr>resolution_x = 1920, resolution_y = 1080, pixel_aspect_x = 1, pixel_aspect_y = 1\<rparr>"


text \<open>
  A standard output that takes every text, and one that has been closed: writing to it
  raises ValueError.
\<close>

definition open_stdout :: "string \<Rightarrow> py_error option" where
  "open_stdout text = None"


text \<open>
  A standard output whose encoding is ASCII: writing a text with any other character
  raises UnicodeEncodeError.
\<close>

definition ascii_stdout :: "string \<Rightarrow> py_error option" where
  "ascii_stdout text =
     (if list_all (\<lambda>c. of_char c < (128::nat)) text then None else Some UnicodeEncodeError)"

text \<open>
  Meshes whose faces are triangles already, so that the host's triangulation returns
  the faces as they are.
\<close>

definition triangles_as_given ::
  "bl_vertex list \<Rightarrow> (nat \<times> nat \<times> nat) list \<Rightarrow> (nat \<times> nat \<times> nat) list" where
  "triangles_as_given vs faces = faces"

definition example_vertices :: "bl_vertex list" where
  "example_vertices =
     [\<lparr>co = Vec3 1 (- 2) 0, normal = Vec3 0 0 1\<rparr>,
      \<lparr>co = Vec3 (1 / 2) 0 (- 3 / 4), normal = Vec3 0 (- 1) 0\<rparr>,
      \<lparr>co = Vec3 0 0 0, normal = Vec3 (3 / 5) 0 (- 4 / 5)\<rparr>]"

definition example_mesh :: "(nat \<times> nat \<times> nat) list bl_mesh_object" where
  "example_mesh =
     \<lparr>matrix_world = translation 7 8 9, location = Vec3 7 8 9,
      data = \<lparr>vertices = example_vertices, polygons = [(2, 0, 1)], loop_triangles = [],
              uv_layers_active = None\<rparr>\<rparr>"

definition example_uv_mesh :: "(nat \<times> nat \<times> nat) list bl_mesh_object" where
  "example_uv_mesh =
     \<lparr>matrix_world = translation 7 8 9, location = Vec3 7 8 9,
      data = \<lparr>vertices = example_vertices, polygons = [(2, 0, 1)], loop_triangles = [],
              uv_layers_active = Some [Vec2 0 0, Vec2 1 0, Vec2 (1 / 2) 1]\<rparr>\<rparr>"

text \<open>
  A triangle and a fourth, loose vertex: the UV layer has one entry per face corner,
  three in all, for four vertices.
\<close>

definition loose_vertex_mesh :: "(nat \<times> nat \<times> nat) list bl_mesh_object" where
  "loose_vertex_mesh =
     \<lparr>matrix_world = identity4, location = Vec3 0 0 0,
      data = \<lparr>vertices = example_vertices @ [\<lparr>co = Vec3 5 5 5, normal = Vec3 0 0 1\<rparr>],
              polygons = [(0, 1, 2)], loop_triangles = [],
              uv_layers_active = Some [Vec2 0 0, Vec2 1 0, Vec2 (1 / 2) 1]\<rparr>\<rparr>"

definition example_light :: bl_object where
  "example_light = \<lparr>matrix_world = translation 1 2 3, location = Vec3 1 2 3\<rparr>"

text \<open>
  A file system with one readable file, one file without read permission and nothing
  else; handle 0 is open already. The host's path expansion keeps every path but the
  empty one, on which it raises.
\<close>

definition example_open_error :: "string \<Rightarrow> py_error option" where
  "example_open_error path =
     (if path = ''/tmp/shader.frag'' then None
      else if path = ''/root/secret'' then Some PermissionError
      else Some FileNotFoundError)"

definition example_os :: os_state where
  "example_os = \<lparr>open_error = example_open_error, open_handles = [0]\<rparr>"

definition example_abspath :: "string \<Rightarrow> py_error + string" where
  "example_abspath filename = (if filename = [] then Inl TypeError else Inr filename)"

section \<open>Properties\<close>

subsection \<open>Auxiliary facts\<close>

lemma mat4_at_rows:
  "mat4_at (Mat4 r0 r1 r2 r3) 0 c = vec4_at r0 c"
  "mat4_at (Mat4 r0 r1 r2 r3) (Suc 0) c = vec4_at r1 c"
  "mat4_at (Mat4 r0 r1 r2 r3) 2 c = vec4_at r2 c"
  "mat4_at (Mat4 r0 r1 r2 r3) 3 c = vec4_at r3 c"
  by (simp_all add: mat4_at_def)

lemma upt_4: "[0..<4] = [0, Suc 0, 2, 3]"
  by (simp add: upt_rec)

lemma less_4_cases: "k < (4::nat) \<Longrightarrow> k = 0 \<or> k = 1 \<or> k = 2 \<or> k = 3"
  by arith

lemma groups_of_16:
  "group_of [a0, a1, a2, a3, a4, a5, a6, a7, a8, a9, a10, a11, a12, a13, a14, a15] 0 =
     [a0, a1, a2, a3]"
  "group_of [a0, a1, a2, a3, a4, a5, a6, a7, a8, a9, a10, a11, a12, a13, a14, a15] (Suc 0) =
     [a4, a5, a6, a7]"
  "group_of [a0, a1, a2, a3, a4, a5, a6, a7, a8, a9, a10, a11, a12, a13, a14, a15] 2 =
     [a8, a9, a10, a11]"
  "group_of [a0, a1, a2, a3, a4, a5, a6, a7, a8, a9, a10, a11, a12, a13, a14, a15] 3 =
     [a12, a13, a14, a15]"
  by (simp_all add: group_of_def)

text \<open>
  The call that the source makes on a scene camera object passes an integer where the
  host takes the dependency graph.
\<close>

lemma calc_matrix_camera_positional:
  "calc_matrix_camera ob [PyInt rx, PyInt ry, PyFloat ax, PyFloat ay] = Inl TypeError"
  by simp

text \<open>
  The camera converter in one equation: the branch on the kind of source, then the two
  setter calls with their arguments in the order of the source text.
\<close>

lemma bl2veraCamera_unfolded:
  "bl2veraCamera inverted stdout_error render source img_dims =
    (case (case source of
             RegionView3D rv \<Rightarrow>
               (case inverted (view_matrix rv) of
                  None \<Rightarrow> Inl ([], Inl ValueError)
                | Some V \<Rightarrow> Inr (V, window_matrix rv))
           | Object ob \<Rightarrow>
               (case inverted (matrix_world ob) of
                  None \<Rightarrow> Inl ([], Inl ValueError)
                | Some V \<Rightarrow> Inl ([], Inl TypeError))
           | Other formatted \<Rightarrow>
               (case formatted of
                  Inl e \<Rightarrow> Inl ([], Inl e)
                | Inr text \<Rightarrow>
                    (case stdout_error (''INVALID CAMERA SOURCE: '' @ text) of
                       Some e \<Rightarrow> Inl ([], Inl e)
                     | None \<Rightarrow> Inl ([''INVALID CAMERA SOURCE: '' @ text], Inr None)))) of
       Inl exit \<Rightarrow> exit
     | Inr (V, P) \<Rightarrow>
         ([], Inr (Some \<lparr>transform_matrix = Some
            [mat4_at V 0 0, mat4_at V 2 0, mat4_at V 1 0, mat4_at V 3 0,
             mat4_at V 0 1, mat4_at V 2 1, mat4_at V 1 1, mat4_at V 3 1,
             mat4_at V 0 2, mat4_at V 2 2, mat4_at V 1 2, mat4_at V 3 2,
             mat4_at V 0 3, mat4_at V 2 3, mat4_at V 1 3, mat4_at V 3 3],
           projection = Some
            [mat4_at P 0 0, mat4_at P 1 0, mat4_at P 2 0, mat4_at P 3 0,
             mat4_at P 0 1, mat4_at P 1 1, mat4_at P 2 1, mat4_at P 3 1,
             mat4_at P 0 2, mat4_at P 1 2, mat4_at P 2 2, mat4_at P 3 2,
             mat4_at P 0 3, mat4_at P 1 3, mat4_at P 2 3, mat4_at P 3 3],
           viewport = Some (fst img_dims, snd img_dims), scale = Some 0.5\<rparr>)))"
  by (simp add: bl2veraCamera_def Let_def np_array_def gl_Camera_def setTransformMatrix_def
      setProjection_def setViewport_def setScale_def py_print_def
      split: camera_source.split option.split sum.split)

text \<open>
  For a scene camera object no setter is reached: the inversion of the world matrix
  raises ValueError, or the call of \<open>calc_matrix_camera\<close> raises TypeError.
\<close>

lemma scene_camera_object_raises:
  "bl2veraCamera inverted stdout_error render (Object ob) img_dims =
     ([], Inl (case inverted (matrix_world ob) of None \<Rightarrow> ValueError | Some V \<Rightarrow> TypeError))"
  by (simp add: bl2veraCamera_unfolded split: option.split)

lemma ascii_stdout_message:
  "ascii_stdout (''INVALID CAMERA SOURCE: '' @ ''42'') = None"
  by (simp add: ascii_stdout_def)

lemma inverted_translation_translation:
  "inverted_translation (translation a b c) = Some (translation (- a) (- b) (- c))"
  by (simp add: inverted_translation_def translation_def mat4_at_rows)

lemma inverted_translation_Mat4:
  "inverted_translation (Mat4 (Vec4 1 0 0 a) (Vec4 0 1 0 b) (Vec4 0 0 1 c) (Vec4 0 0 0 1)) =
     Some (Mat4 (Vec4 1 0 0 (- a)) (Vec4 0 1 0 (- b)) (Vec4 0 0 1 (- c)) (Vec4 0 0 0 1))"
  using inverted_translation_translation [of a b c] by (simp add: translation_def)

lemma identity4_translation: "identity4 = translation 0 0 0"
  by (simp add: identity4_def translation_def)

lemma inverted_translation_identity: "inverted_translation identity4 = Some identity4"
  using inverted_translation_translation [of 0 0 0] by (simp add: identity4_translation)

lemma neg_vec3:
  "(- vec3_at p 0, - vec3_at p (Suc 0), - vec3_at p 2) =
     (case p of Vec3 x y z \<Rightarrow> (- x, - y, - z))"
  by (cases p) simp

lemma pair_vec2: "(vec2_at uv 0, vec2_at uv (Suc 0)) = (case uv of Vec2 u v \<Rightarrow> (u, v))"
  by (cases uv) simp

lemma vertex_loop_appends:
  "vertex_loop vs mesh =
     mesh\<lparr>gl_vertices := gl_vertices mesh @
              map (\<lambda>v. case co v of Vec3 x y z \<Rightarrow> (- x, - y, - z)) vs,
          gl_normals := gl_normals mesh @
              map (\<lambda>v. case normal v of Vec3 x y z \<Rightarrow> (- x, - y, - z)) vs\<rparr>"
  by (induction vs arbitrary: mesh) (simp_all add: Let_def addVertex_def addNormal_def neg_vec3)

lemma triangle_loop_appends:
  "triangle_loop tris mesh =
     mesh\<lparr>gl_indices := gl_indices mesh @ concat (map (\<lambda>(v0, v1, v2). [v0, v1, v2]) tris)\<rparr>"
  by (induction tris mesh rule: triangle_loop.induct) (simp_all add: Let_def addIndex_def)

lemma texcoord_loop_in_range:
  "list_all (\<lambda>i. i < length uv_data) is \<Longrightarrow>
   texcoord_loop uv_data is mesh =
     Inr (mesh\<lparr>gl_texcoords := gl_texcoords mesh @
            map (\<lambda>i. case uv_data ! i of Vec2 u v \<Rightarrow> (u, v)) is\<rparr>)"
  by (induction "is" arbitrary: mesh) (simp_all add: Let_def addTexCoord_def pair_vec2)

lemma texcoord_loop_out_of_range:
  "\<not> list_all (\<lambda>i. i < length uv_data) is \<Longrightarrow>
   texcoord_loop uv_data is mesh = Inl IndexError"
  by (induction "is" arbitrary: mesh) (simp_all add: Let_def)

lemma upt_all_less: "list_all (\<lambda>i. i < m) [0..<n] \<longleftrightarrow> n \<le> m"
  by (induction n) auto

text \<open>
  The mesh converter in one equation: it returns exactly when the UV layer, if there is
  one, has an entry for every vertex index, and raises IndexError otherwise.
\<close>

lemma bl2veraMesh_result:
  "bl2veraMesh triangulate bl_mesh =
     (if uv_aligned bl_mesh
      then Inr \<lparr>gl_vertices =
                  map (\<lambda>v. case co v of Vec3 x y z \<Rightarrow> (- x, - y, - z)) (vertices (data bl_mesh)),
                gl_normals =
                  map (\<lambda>v. case normal v of Vec3 x y z \<Rightarrow> (- x, - y, - z))
                    (vertices (data bl_mesh)),
                gl_indices = concat (map (\<lambda>(v0, v1, v2). [v0, v1, v2])
                   (triangulate (vertices (data bl_mesh)) (polygons (data bl_mesh)))),
                gl_texcoords = (case uv_layers_active (data bl_mesh) of
                    None \<Rightarrow> []
                  | Some uv_data \<Rightarrow> map (\<lambda>i. case uv_data ! i of Vec2 u v \<Rightarrow> (u, v))
                      [0..<length (vertices (data bl_mesh))]),
                gl_tangents = (case uv_layers_active (data bl_mesh) of
                    None \<Rightarrow> []
                  | Some uv_data \<Rightarrow>
                      [\<lparr>gl_vertices =
                          map (\<lambda>v. case co v of Vec3 x y z \<Rightarrow> (- x, - y, - z))
                            (vertices (data bl_mesh)),
                        gl_normals =
                          map (\<lambda>v. case normal v of Vec3 x y z \<Rightarrow> (- x, - y, - z))
                            (vertices (data bl_mesh)),
                        gl_indices = concat (map (\<lambda>(v0, v1, v2). [v0, v1, v2])
                          (triangulate (vertices (data bl_mesh)) (polygons (data bl_mesh)))),
                        gl_texcoords = map (\<lambda>i. case uv_data ! i of Vec2 u v \<Rightarrow> (u, v))
                          [0..<length (vertices (data bl_mesh))]\<rparr>])\<rparr>
      else Inl IndexError,
      calc_loop_triangles triangulate bl_mesh)"
proof (cases "uv_layers_active (data bl_mesh)")
  case None
  then show ?thesis
    by (simp add: bl2veraMesh_def uv_aligned_def calc_loop_triangles_def Let_def
        vertex_loop_appends triangle_loop_appends gl_Mesh_def)
next
  case (Some uv_data)
  show ?thesis
  proof (cases "length (vertices (data bl_mesh)) \<le> length uv_data")
    case True
    then have "list_all (\<lambda>i. i < length uv_data) [0..<length (vertices (data bl_mesh))]"
      by (simp add: upt_all_less)
    with Some True show ?thesis
      by (simp add: bl2veraMesh_def uv_aligned_def calc_loop_triangles_def Let_def
          vertex_loop_appends triangle_loop_appends gl_Mesh_def getVerticesTotal_def
          texcoord_loop_in_range computeTangents_def)
  next
    case False
    then have "\<not> list_all (\<lambda>i. i < length uv_data) [0..<length (vertices (data bl_mesh))]"
      by (simp add: upt_all_less)
    with Some False show ?thesis
      by (simp add: bl2veraMesh_def uv_aligned_def calc_loop_triangles_def Let_def
          vertex_loop_appends triangle_loop_appends gl_Mesh_def getVerticesTotal_def
          texcoord_loop_out_of_range)
  qed
qed

lemma bl2veraMesh_matrix_world:
  "fst (bl2veraMesh triangulate (bl_mesh\<lparr>matrix_world := W\<rparr>)) =
     fst (bl2veraMesh triangulate bl_mesh)"
  by (simp add: bl2veraMesh_result uv_aligned_def cong: option.case_cong)

lemma zip_negated_vertices:
  "map (\<lambda>((x, y, z), (nx, ny, nz)). \<lparr>co = Vec3 x y z, normal = Vec3 nx ny nz\<rparr>)
     (zip (map (\<lambda>v. case co v of Vec3 x y z \<Rightarrow> (- x, - y, - z)) vs)
          (map (\<lambda>v. case normal v of Vec3 x y z \<Rightarrow> (- x, - y, - z)) vs)) =
   map (\<lambda>v. case (co v, normal v) of
          (Vec3 x y z, Vec3 nx ny nz) \<Rightarrow>
            \<lparr>co = Vec3 (- x) (- y) (- z), normal = Vec3 (- nx) (- ny) (- nz)\<rparr>) vs"
  by (induction vs) (auto split: vec3.splits)

subsection \<open>Camera converter\<close>

text \<open>
  C1, as the source has it. For a viewport source, when the host's inversion of the
  viewport's view matrix succeeds with the view matrix \<open>V\<close> and the window matrix is
  \<open>P\<close>, the converter returns a camera, both setters received 16 arguments, and for
  each group \<open>k\<close> in 0..3 the view setter received \<open>V[0][k]\<close>, \<open>V[2][k]\<close>,
  \<open>V[1][k]\<close>, \<open>V[3][k]\<close> (column \<open>k\<close>, rows 1 and 2 exchanged) while the
  projection setter received \<open>P[0][k]\<close>, \<open>P[1][k]\<close>, \<open>P[2][k]\<close>, \<open>P[3][k]\<close>
  (column \<open>k\<close>, no exchange). No component is negated.
\<close>

theorem camera_setter_arguments:
  "inverted (view_matrix rv) = Some V \<Longrightarrow>
   \<exists>t p cam.
     bl2veraCamera inverted stdout_error render (RegionView3D rv) img_dims =
       ([], Inr (Some cam)) \<and>
     transform_matrix cam = Some t \<and> projection cam = Some p \<and>
     length t = 16 \<and> length p = 16 \<and>
     (\<forall>k<4. group_of t k = [mat4_at V 0 k, mat4_at V 2 k, mat4_at V 1 k, mat4_at V 3 k]) \<and>
     (\<forall>k<4. group_of p k =
        [mat4_at (window_matrix rv) 0 k, mat4_at (window_matrix rv) 1 k,
         mat4_at (window_matrix rv) 2 k, mat4_at (window_matrix rv) 3 k])"
  by (auto simp: bl2veraCamera_unfolded groups_of_16 dest!: less_4_cases)

text \<open>
  The theorem at a viewport whose view matrix is the translation by (1, 2, 3) and
  whose window matrix has the components 1 to 16.
\<close>

theorem camera_setter_arguments_witness:
  "inverted_translation (view_matrix example_region) = Some (translation (- 1) (- 2) (- 3)) \<and>
   (\<exists>t p cam.
      bl2veraCamera inverted_translation open_stdout example_render
        (RegionView3D example_region) (640, 480) = ([], Inr (Some cam)) \<and>
      transform_matrix cam = Some t \<and> projection cam = Some p \<and>
      group_of t 0 = [1, 0, 0, 0] \<and> group_of t 3 = [- 1, - 3, - 2, 1] \<and>
      group_of p 0 = [1, 5, 9, 13] \<and> group_of p 3 = [4, 8, 12, 16])"
proof -
  have v: "inverted_translation (view_matrix example_region) =
      Some (translation (- 1) (- 2) (- 3))"
    by (simp add: example_region_def inverted_translation_translation)
  from camera_setter_arguments [where inverted = inverted_translation
      and rv = example_region and V = "translation (- 1) (- 2) (- 3)"
      and stdout_error = open_stdout and render = example_render
      and img_dims = "(640, 480)", OF v]
  obtain t p cam where a:
    "bl2veraCamera inverted_translation open_stdout example_render
       (RegionView3D example_region) (640, 480) = ([], Inr (Some cam))"
    "transform_matrix cam = Some t" "projection cam = Some p"
    "\<forall>k<4. group_of t k = [mat4_at (translation (- 1) (- 2) (- 3)) 0 k,
       mat4_at (translation (- 1) (- 2) (- 3)) 2 k, mat4_at (translation (- 1) (- 2) (- 3)) 1 k,
       mat4_at (translation (- 1) (- 2) (- 3)) 3 k]"
    "\<forall>k<4. group_of p k = [mat4_at (window_matrix example_region) 0 k,
       mat4_at (window_matrix example_region) 1 k, mat4_at (window_matrix example_region) 2 k,
       mat4_at (window_matrix example_region) 3 k]"
    by blast
  have "group_of t 0 = [1, 0, 0, 0]" "group_of t 3 = [- 1, - 3, - 2, 1]"
    using a(4) by (simp_all add: translation_def mat4_at_rows)
  moreover have "group_of p 0 = [1, 5, 9, 13]" "group_of p 3 = [4, 8, 12, 16]"
    using a(5) by (simp_all add: example_region_def example_matrix_def mat4_at_rows)
  ultimately show ?thesis using v a(1-3) by blast
qed

text \<open>
  C1 as the specification words it fails on the source: at the example viewport the
  view setter receives the columns of the inverted view matrix with rows 1 and 2
  exchanged and the projection setter receives the columns of the window matrix, and
  neither list is the one the specification's mapping gives.
\<close>

theorem spec_axis_swap_counterexample:
  "bl2veraCamera inverted_translation open_stdout example_render
     (RegionView3D example_region) (640, 480) =
     ([], Inr (Some \<lparr>transform_matrix = Some [1, 0, 0, 0, 0, 0, 1, 0, 0, 1, 0, 0, - 1, - 3, - 2, 1],
        projection = Some [1, 5, 9, 13, 2, 6, 10, 14, 3, 7, 11, 15, 4, 8, 12, 16],
        viewport = Some (640, 480), scale = Some 0.5\<rparr>)) \<and>
   spec_axis_swap (translation (- 1) (- 2) (- 3)) =
     [1, 0, 0, - 1, 0, 0, 1, - 2, 0, 1, 0, - 3, 0, 0, 0, 1] \<and>
   spec_axis_swap example_matrix = [1, 3, 2, 4, 5, 7, 6, 8, 9, 11, 10, 12, 13, 15, 14, 16] \<and>
   [1, 0, 0, 0, 0, 0, 1, 0, 0, 1, 0, 0, - 1, - 3, - 2, 1] \<noteq>
     spec_axis_swap (translation (- 1) (- 2) (- 3)) \<and>
   [1, 5, 9, 13, 2, 6, 10, 14, 3, 7, 11, 15, 4, 8, 12, 16] \<noteq> spec_axis_swap example_matrix"
  by (simp add: bl2veraCamera_unfolded example_region_def inverted_translation_Mat4
      spec_axis_swap_def upt_4 translation_def example_matrix_def mat4_at_rows)

text \<open>
  C2, as the source has it. When the host inverts the identity to the identity, a
  viewport whose view matrix and window matrix are both the identity is converted to
  a camera whose 16 view values give the identity when re-assembled with columns 1 and
  2 swapped back, and whose 16 projection values give the identity when re-assembled
  as they stand.
\<close>

theorem identity_camera_reassembles:
  "inverted identity4 = Some identity4 \<Longrightarrow>
   view_matrix rv = identity4 \<Longrightarrow> window_matrix rv = identity4 \<Longrightarrow>
   \<exists>t p cam.
     bl2veraCamera inverted stdout_error render (RegionView3D rv) img_dims =
       ([], Inr (Some cam)) \<and>
     transform_matrix cam = Some t \<and> projection cam = Some p \<and>
     length t = 16 \<and> length p = 16 \<and>
     reassemble_swap_back t = identity4 \<and> reassemble p = identity4"
  by (simp add: bl2veraCamera_unfolded reassemble_def reassemble_swap_back_def
      identity4_def mat4_at_rows)

text \<open>The theorem at the viewport whose matrices are the identity.\<close>

theorem identity_camera_reassembles_witness:
  "inverted_translation identity4 = Some identity4 \<and>
   view_matrix identity_region = identity4 \<and> window_matrix identity_region = identity4 \<and>
   (\<exists>t p cam.
      bl2veraCamera inverted_translation open_stdout example_render
        (RegionView3D identity_region) (640, 480) = ([], Inr (Some cam)) \<and>
      transform_matrix cam = Some t \<and> projection cam = Some p \<and>
      length t = 16 \<and> length p = 16 \<and>
      reassemble_swap_back t = identity4 \<and> reassemble p = identity4)"
proof -
  have h: "inverted_translation identity4 = Some identity4"
    by (rule inverted_translation_identity)
  have v: "view_matrix identity_region = identity4"
    and w: "window_matrix identity_region = identity4"
    by (simp_all add: identity_region_def)
  show ?thesis
    using h v w
      identity_camera_reassembles [where inverted = inverted_translation
        and rv = identity_region and stdout_error = open_stdout
        and render = example_render and img_dims = "(640, 480)", OF h v w]
    by blast
qed

text \<open>
  C2 as the specification words it fails for the projection: the 16 projection values
  of the identity camera are the identity row by row, and swapping columns 1 and 2
  back turns them into a matrix that is not the identity.
\<close>

theorem identity_projection_swap_back_counterexample:
  "bl2veraCamera inverted_translation open_stdout example_render
     (RegionView3D identity_region) (640, 480) =
     ([], Inr (Some \<lparr>transform_matrix = Some [1, 0, 0, 0, 0, 0, 1, 0, 0, 1, 0, 0, 0, 0, 0, 1],
        projection = Some [1, 0, 0, 0, 0, 1, 0, 0, 0, 0, 1, 0, 0, 0, 0, 1],
        viewport = Some (640, 480), scale = Some 0.5\<rparr>)) \<and>
   reassemble_swap_back [1, 0, 0, 0, 0, 1, 0, 0, 0, 0, 1, 0, 0, 0, 0, 1] =
     Mat4 (Vec4 1 0 0 0) (Vec4 0 0 1 0) (Vec4 0 1 0 0) (Vec4 0 0 0 1) \<and>
   reassemble_swap_back [1, 0, 0, 0, 0, 1, 0, 0, 0, 0, 1, 0, 0, 0, 0, 1] \<noteq> identity4"
  by (simp add: bl2veraCamera_unfolded identity_region_def inverted_translation_Mat4
      reassemble_swap_back_def identity4_def mat4_at_rows)

text \<open>
  C7, as the source has it. For a source that is neither a viewport state nor a scene
  object: when formatting the source for the message yields a text and writing the
  message to the standard output succeeds, the converter prints
  \<open>INVALID CAMERA SOURCE: \<close> followed by the text and returns \<open>None\<close>; when
  formatting the source raises, or writing the message raises, that error leaves the
  converter and nothing is returned.
\<close>

theorem unrecognized_source_reported:
  "(formatted = Inr str \<and> stdout_error (''INVALID CAMERA SOURCE: '' @ str) = None \<longrightarrow>
      bl2veraCamera inverted stdout_error render (Other formatted) img_dims =
        ([''INVALID CAMERA SOURCE: '' @ str], Inr None)) \<and>
   (formatted = Inl e \<longrightarrow>
      bl2veraCamera inverted stdout_error render (Other formatted) img_dims = ([], Inl e)) \<and>
   (formatted = Inr str \<and> stdout_error (''INVALID CAMERA SOURCE: '' @ str) = Some e \<longrightarrow>
      bl2veraCamera inverted stdout_error render (Other formatted) img_dims = ([], Inl e))"
  by (simp add: bl2veraCamera_unfolded)

text \<open>
  The theorem at the source whose text is \<open>42\<close>, on a standard output that takes
  every text and on one that takes ASCII only, and at a source with a character that
  the ASCII output cannot encode.
\<close>

theorem unrecognized_source_reported_witness:
  "open_stdout (''INVALID CAMERA SOURCE: '' @ ''42'') = None \<and>
   bl2veraCamera inverted_translation open_stdout example_render (Other (Inr ''42''))
     (640, 480) = ([''INVALID CAMERA SOURCE: 42''], Inr None) \<and>
   ascii_stdout (''INVALID CAMERA SOURCE: '' @ ''42'') = None \<and>
   bl2veraCamera inverted_translation ascii_stdout example_render (Other (Inr ''42''))
     (640, 480) = ([''INVALID CAMERA SOURCE: 42''], Inr None) \<and>
   ascii_stdout (''INVALID CAMERA SOURCE: '' @ [CHR 0xC3, CHR 0xA9]) =
     Some UnicodeEncodeError \<and>
   bl2veraCamera inverted_translation ascii_stdout example_render
     (Other (Inr [CHR 0xC3, CHR 0xA9])) (640, 480) = ([], Inl UnicodeEncodeError)"
proof -
  have o: "open_stdout (''INVALID CAMERA SOURCE: '' @ ''42'') = None"
    by (simp add: open_stdout_def)
  have a: "ascii_stdout (''INVALID CAMERA SOURCE: '' @ ''42'') = None"
    by (rule ascii_stdout_message)
  have u: "ascii_stdout (''INVALID CAMERA SOURCE: '' @ [CHR 0xC3, CHR 0xA9]) =
      Some UnicodeEncodeError"
    by (simp add: ascii_stdout_def)
  show ?thesis
    using o a u
      unrecognized_source_reported [where formatted = "Inr ''42''" and str = "''42''"
        and stdout_error = open_stdout and inverted = inverted_translation
        and render = example_render and img_dims = "(640, 480)"]
      unrecognized_source_reported [where formatted = "Inr ''42''" and str = "''42''"
        and stdout_error = ascii_stdout and inverted = inverted_translation
        and render = example_render and img_dims = "(640, 480)"]
      unrecognized_source_reported [where formatted = "Inr [CHR 0xC3, CHR 0xA9]"
        and str = "[CHR 0xC3, CHR 0xA9]" and e = UnicodeEncodeError
        and stdout_error = ascii_stdout and inverted = inverted_translation
        and render = example_render and img_dims = "(640, 480)"]
    by simp
qed

text \<open>
  C7 as the specification words it fails on a source that cannot be formatted: for a
  value whose \<open>__format__\<close> raises TypeError the converter raises TypeError; it
  prints nothing and does not return \<open>None\<close>.
\<close>

theorem unformattable_source_counterexample:
  "bl2veraCamera inverted_translation open_stdout example_render (Other (Inl TypeError))
     (640, 480) = ([], Inl TypeError) \<and>
   snd (bl2veraCamera inverted_translation open_stdout example_render (Other (Inl TypeError))
     (640, 480)) \<noteq> Inr None"
  by (simp add: bl2veraCamera_unfolded)

subsection \<open>Mesh converter\<close>

text \<open>
  C3. Whenever the UV layer (if any) has an entry per vertex index, the mesh
  converter returns a mesh; for every host vertex, in order, the emitted position is
  (-x, -y, -z) of the raw local position and the emitted normal is (-nx, -ny, -nz) of
  the raw local normal. The world matrix is not applied: any other world matrix gives
  the same mesh. Negating twice recovers the coordinates: converting the emitted
  positions and normals once more, read as host vertices, returns the original
  positions and normals.
\<close>

theorem mesh_positions_and_normals_negated:
  "uv_aligned bl_mesh \<Longrightarrow>
   \<exists>mesh mesh2.
     fst (bl2veraMesh triangulate bl_mesh) = Inr mesh \<and>
     gl_vertices mesh =
       map (\<lambda>v. case co v of Vec3 x y z \<Rightarrow> (- x, - y, - z)) (vertices (data bl_mesh)) \<and>
     gl_normals mesh =
       map (\<lambda>v. case normal v of Vec3 nx ny nz \<Rightarrow> (- nx, - ny, - nz))
         (vertices (data bl_mesh)) \<and>
     fst (bl2veraMesh triangulate (bl_mesh\<lparr>matrix_world := W\<rparr>)) = Inr mesh \<and>
     fst (bl2veraMesh triangulate
            (bl_mesh\<lparr>data := (data bl_mesh)\<lparr>vertices := as_bl_vertices mesh\<rparr>\<rparr>)) = Inr mesh2 \<and>
     gl_vertices mesh2 =
       map (\<lambda>v. case co v of Vec3 x y z \<Rightarrow> (x, y, z)) (vertices (data bl_mesh)) \<and>
     gl_normals mesh2 =
       map (\<lambda>v. case normal v of Vec3 nx ny nz \<Rightarrow> (nx, ny, nz)) (vertices (data bl_mesh))"
proof -
  assume a: "uv_aligned bl_mesh"
  let ?vs = "vertices (data bl_mesh)"
  let ?neg = "(\<lambda>p. case p of Vec3 x y z \<Rightarrow> (- x, - y, - z))"
  obtain mesh where m: "fst (bl2veraMesh triangulate bl_mesh) = Inr mesh"
    and v: "gl_vertices mesh = map (\<lambda>v. ?neg (co v)) ?vs"
    and n: "gl_normals mesh = map (\<lambda>v. ?neg (normal v)) ?vs"
    using a by (simp add: bl2veraMesh_result)
  have w: "fst (bl2veraMesh triangulate (bl_mesh\<lparr>matrix_world := W\<rparr>)) = Inr mesh"
    using m by (simp add: bl2veraMesh_matrix_world)
  have rd: "as_bl_vertices mesh =
      map (\<lambda>v. case (co v, normal v) of
        (Vec3 x y z, Vec3 nx ny nz) \<Rightarrow> \<lparr>co = Vec3 (- x) (- y) (- z),
           normal = Vec3 (- nx) (- ny) (- nz)\<rparr>) ?vs"
    unfolding as_bl_vertices_def v n by (rule zip_negated_vertices)
  let ?m2 = "bl_mesh\<lparr>data := (data bl_mesh)\<lparr>vertices := as_bl_vertices mesh\<rparr>\<rparr>"
  have len: "length (as_bl_vertices mesh) = length ?vs"
    by (simp add: rd)
  have a2: "uv_aligned ?m2"
    using a by (simp add: uv_aligned_def len split: option.splits)
  obtain mesh2 where m2: "fst (bl2veraMesh triangulate ?m2) = Inr mesh2"
    and v2: "gl_vertices mesh2 = map (\<lambda>v. ?neg (co v)) (as_bl_vertices mesh)"
    and n2: "gl_normals mesh2 = map (\<lambda>v. ?neg (normal v)) (as_bl_vertices mesh)"
    using a2 by (simp add: bl2veraMesh_result)
  have "gl_vertices mesh2 = map (\<lambda>v. case co v of Vec3 x y z \<Rightarrow> (x, y, z)) ?vs"
    unfolding v2 rd by (auto split: vec3.splits)
  moreover have "gl_normals mesh2 =
      map (\<lambda>v. case normal v of Vec3 nx ny nz \<Rightarrow> (nx, ny, nz)) ?vs"
    unfolding n2 rd by (auto split: vec3.splits)
  ultimately show ?thesis
    using m v n w m2 by blast
qed

text \<open>
  The theorem at the example mesh with a UV layer, whose three vertices have
  positive, negative, zero and fractional coordinates.
\<close>

theorem mesh_positions_and_normals_negated_witness:
  "uv_aligned example_uv_mesh \<and>
   (\<exists>mesh mesh2.
      fst (bl2veraMesh triangles_as_given example_uv_mesh) = Inr mesh \<and>
      gl_vertices mesh = [(- 1, 2, 0), (- (1 / 2), 0, 3 / 4), (0, 0, 0)] \<and>
      gl_normals mesh = [(0, 0, - 1), (0, 1, 0), (- (3 / 5), 0, 4 / 5)] \<and>
      fst (bl2veraMesh triangles_as_given (example_uv_mesh\<lparr>matrix_world := identity4\<rparr>)) =
        Inr mesh \<and>
      fst (bl2veraMesh triangles_as_given
             (example_uv_mesh\<lparr>data := (data example_uv_mesh)\<lparr>vertices :=
                as_bl_vertices mesh\<rparr>\<rparr>)) = Inr mesh2 \<and>
      gl_vertices mesh2 = [(1, - 2, 0), (1 / 2, 0, - (3 / 4)), (0, 0, 0)] \<and>
      gl_normals mesh2 = [(0, 0, 1), (0, - 1, 0), (3 / 5, 0, - (4 / 5))])"
proof -
  have a: "uv_aligned example_uv_mesh"
    by (simp add: uv_aligned_def example_uv_mesh_def example_vertices_def)
  have vs: "vertices (data example_uv_mesh) = example_vertices"
    by (simp add: example_uv_mesh_def)
  from mesh_positions_and_normals_negated [OF a, of triangles_as_given identity4]
  obtain mesh mesh2 where
    "fst (bl2veraMesh triangles_as_given example_uv_mesh) = Inr mesh"
    "gl_vertices mesh =
       map (\<lambda>v. case co v of Vec3 x y z \<Rightarrow> (- x, - y, - z)) (vertices (data example_uv_mesh))"
    "gl_normals mesh =
       map (\<lambda>v. case normal v of Vec3 nx ny nz \<Rightarrow> (- nx, - ny, - nz))
         (vertices (data example_uv_mesh))"
    "fst (bl2veraMesh triangles_as_given (example_uv_mesh\<lparr>matrix_world := identity4\<rparr>)) =
       Inr mesh"
    "fst (bl2veraMesh triangles_as_given
            (example_uv_mesh\<lparr>data := (data example_uv_mesh)\<lparr>vertices :=
               as_bl_vertices mesh\<rparr>\<rparr>)) = Inr mesh2"
    "gl_vertices mesh2 =
       map (\<lambda>v. case co v of Vec3 x y z \<Rightarrow> (x, y, z)) (vertices (data example_uv_mesh))"
    "gl_normals mesh2 =
       map (\<lambda>v. case normal v of Vec3 nx ny nz \<Rightarrow> (nx, ny, nz))
         (vertices (data example_uv_mesh))"
    by blast
  then have
    "fst (bl2veraMesh triangles_as_given example_uv_mesh) = Inr mesh \<and>
      gl_vertices mesh = [(- 1, 2, 0), (- (1 / 2), 0, 3 / 4), (0, 0, 0)] \<and>
      gl_normals mesh = [(0, 0, - 1), (0, 1, 0), (- (3 / 5), 0, 4 / 5)] \<and>
      fst (bl2veraMesh triangles_as_given (example_uv_mesh\<lparr>matrix_world := identity4\<rparr>)) =
        Inr mesh \<and>
      fst (bl2veraMesh triangles_as_given
             (example_uv_mesh\<lparr>data := (data example_uv_mesh)\<lparr>vertices :=
                as_bl_vertices mesh\<rparr>\<rparr>)) = Inr mesh2 \<and>
      gl_vertices mesh2 = [(1, - 2, 0), (1 / 2, 0, - (3 / 4)), (0, 0, 0)] \<and>
      gl_normals mesh2 = [(0, 0, 1), (0, - 1, 0), (3 / 5, 0, - (4 / 5))]"
    by (simp add: vs example_vertices_def)
  with a show ?thesis by blast
qed

text \<open>
  C5. Whenever the mesh converter returns a mesh, its indices are the vertex indices
  of the host's loop triangles, triangle after triangle and within each triangle in
  the order \<open>vertices[0]\<close>, \<open>vertices[1]\<close>, \<open>vertices[2]\<close>: nothing is sorted and no
  winding is flipped. The loop triangles are the ones the host's triangulation left in
  the mesh data. In particular a single triangle (2, 0, 1) yields the indices 2, 0, 1.
\<close>

theorem mesh_indices_in_host_order:
  "uv_aligned bl_mesh \<Longrightarrow>
   \<exists>mesh.
     fst (bl2veraMesh triangulate bl_mesh) = Inr mesh \<and>
     gl_indices mesh =
       concat (map (\<lambda>(v0, v1, v2). [v0, v1, v2])
         (loop_triangles (data (snd (bl2veraMesh triangulate bl_mesh))))) \<and>
     loop_triangles (data (snd (bl2veraMesh triangulate bl_mesh))) =
       triangulate (vertices (data bl_mesh)) (polygons (data bl_mesh)) \<and>
     (triangulate (vertices (data bl_mesh)) (polygons (data bl_mesh)) = [(2, 0, 1)] \<longrightarrow>
        gl_indices mesh = [2, 0, 1])"
  by (simp add: bl2veraMesh_result calc_loop_triangles_def)

text \<open>The theorem at the example mesh, whose only face is the triangle (2, 0, 1).\<close>

theorem mesh_indices_in_host_order_witness:
  "uv_aligned example_mesh \<and>
   triangles_as_given (vertices (data example_mesh)) (polygons (data example_mesh)) =
     [(2, 0, 1)] \<and>
   (\<exists>mesh. fst (bl2veraMesh triangles_as_given example_mesh) = Inr mesh \<and>
      gl_indices mesh = [2, 0, 1])"
proof -
  have a: "uv_aligned example_mesh"
    by (simp add: uv_aligned_def example_mesh_def)
  have t: "triangles_as_given (vertices (data example_mesh)) (polygons (data example_mesh)) =
      [(2, 0, 1)]"
    by (simp add: triangles_as_given_def example_mesh_def)
  show ?thesis
    using a t mesh_indices_in_host_order [OF a, of triangles_as_given] by blast
qed

text \<open>
  C6, as the source has it. For a mesh with an active UV layer and N vertices: when
  the layer has at least N entries, the converter returns a mesh with N vertices and
  exactly N texcoords, texcoord \<open>i\<close> being entry \<open>i\<close> of the layer for \<open>i\<close> in
  0..N-1, and \<open>computeTangents\<close> has been called exactly once, on the mesh as it is
  returned, that is after all N texcoords (and all vertices, normals and indices) were
  added; when the layer has fewer than N entries, IndexError is raised and no mesh is
  returned.
\<close>

theorem texcoords_one_per_vertex:
  "uv_layers_active (data bl_mesh) = Some uv_data \<Longrightarrow>
   (length (vertices (data bl_mesh)) \<le> length uv_data \<longrightarrow>
      (\<exists>mesh.
         fst (bl2veraMesh triangulate bl_mesh) = Inr mesh \<and>
         length (gl_vertices mesh) = length (vertices (data bl_mesh)) \<and>
         length (gl_texcoords mesh) = length (gl_vertices mesh) \<and>
         gl_texcoords mesh =
           map (\<lambda>i. case uv_data ! i of Vec2 u v \<Rightarrow> (u, v)) [0..<length (gl_vertices mesh)] \<and>
         gl_tangents mesh =
           [\<lparr>gl_vertices = gl_vertices mesh, gl_normals = gl_normals mesh,
             gl_indices = gl_indices mesh, gl_texcoords = gl_texcoords mesh\<rparr>])) \<and>
   (length uv_data < length (vertices (data bl_mesh)) \<longrightarrow>
      fst (bl2veraMesh triangulate bl_mesh) = Inl IndexError)"
  by (simp add: bl2veraMesh_result uv_aligned_def)

text \<open>
  The theorem at the example mesh with a UV layer of three entries for its three
  vertices: the one call of \<open>computeTangents\<close> saw the three texcoords.
\<close>

theorem texcoords_one_per_vertex_witness:
  "uv_layers_active (data example_uv_mesh) = Some [Vec2 0 0, Vec2 1 0, Vec2 (1 / 2) 1] \<and>
   length (vertices (data example_uv_mesh)) \<le> length [Vec2 0 0, Vec2 1 0, Vec2 (1 / 2) 1] \<and>
   (\<exists>mesh g.
      fst (bl2veraMesh triangles_as_given example_uv_mesh) = Inr mesh \<and>
      length (gl_vertices mesh) = 3 \<and>
      gl_texcoords mesh = [(0, 0), (1, 0), (1 / 2, 1)] \<and>
      gl_tangents mesh = [g] \<and>
      gl_texcoords g = [(0, 0), (1, 0), (1 / 2, 1)] \<and> length (gl_vertices g) = 3)"
proof -
  have u: "uv_layers_active (data example_uv_mesh) = Some [Vec2 0 0, Vec2 1 0, Vec2 (1 / 2) 1]"
    by (simp add: example_uv_mesh_def)
  have n: "length (vertices (data example_uv_mesh)) = 3"
    by (simp add: example_uv_mesh_def example_vertices_def)
  have up: "[0..<3] = [0, Suc 0, 2]"
    by (simp add: upt_rec)
  from texcoords_one_per_vertex [OF u, of triangles_as_given] n
  obtain mesh where m:
    "fst (bl2veraMesh triangles_as_given example_uv_mesh) = Inr mesh"
    "length (gl_vertices mesh) = 3"
    "gl_texcoords mesh =
       map (\<lambda>i. case [Vec2 0 0, Vec2 1 0, Vec2 (1 / 2) 1] ! i of Vec2 u v \<Rightarrow> (u, v))
         [0..<length (gl_vertices mesh)]"
    "gl_tangents mesh =
       [\<lparr>gl_vertices = gl_vertices mesh, gl_normals = gl_normals mesh,
         gl_indices = gl_indices mesh, gl_texcoords = gl_texcoords mesh\<rparr>]"
    by auto
  have t: "gl_texcoords mesh = [(0, 0), (1, 0), (1 / 2, 1)]"
    using m(2,3) by (simp add: up)
  let ?g = "\<lparr>gl_vertices = gl_vertices mesh, gl_normals = gl_normals mesh,
      gl_indices = gl_indices mesh, gl_texcoords = gl_texcoords mesh\<rparr>"
  have "gl_tangents mesh = [?g]" "gl_texcoords ?g = [(0, 0), (1, 0), (1 / 2, 1)]"
    "length (gl_vertices ?g) = 3"
    using m(2,4) t by simp_all
  with u n m(1,2) t show ?thesis by auto
qed

text \<open>
  C6 as the specification words it fails on a mesh with an active UV layer that has
  fewer entries than the mesh has vertices: for the triangle with a fourth, loose
  vertex the converter raises IndexError at index 3 and emits no mesh.
\<close>

theorem loose_vertex_counterexample:
  "uv_layers_active (data loose_vertex_mesh) = Some [Vec2 0 0, Vec2 1 0, Vec2 (1 / 2) 1] \<and>
   length (vertices (data loose_vertex_mesh)) = 4 \<and>
   fst (bl2veraMesh triangles_as_given loose_vertex_mesh) = Inl IndexError"
  by (simp add: bl2veraMesh_result uv_aligned_def loose_vertex_mesh_def example_vertices_def)

text \<open>
  C10. For every mesh without an active UV layer the converter returns a mesh with no
  texcoords and without a call of \<open>computeTangents\<close>; its vertices, normals and
  indices are the ones of the mesh that the converter returns when the same host mesh
  has an active UV layer.
\<close>

theorem mesh_without_uv_layer:
  "uv_layers_active (data bl_mesh) = None \<Longrightarrow>
   \<exists>mesh.
     fst (bl2veraMesh triangulate bl_mesh) = Inr mesh \<and>
     gl_texcoords mesh = [] \<and> gl_tangents mesh = [] \<and>
     (\<forall>uv_data mesh'.
        fst (bl2veraMesh triangulate
               (bl_mesh\<lparr>data := (data bl_mesh)\<lparr>uv_layers_active := Some uv_data\<rparr>\<rparr>)) =
          Inr mesh' \<longrightarrow>
        gl_vertices mesh' = gl_vertices mesh \<and> gl_normals mesh' = gl_normals mesh \<and>
        gl_indices mesh' = gl_indices mesh)"
  by (auto simp: bl2veraMesh_result uv_aligned_def split: if_splits)

text \<open>
  The theorem at the example mesh, without UV layer and with the UV layer of
  \<open>example_uv_mesh\<close>.
\<close>

theorem mesh_without_uv_layer_witness:
  "uv_layers_active (data example_mesh) = None \<and>
   example_mesh\<lparr>data := (data example_mesh)\<lparr>uv_layers_active :=
      Some [Vec2 0 0, Vec2 1 0, Vec2 (1 / 2) 1]\<rparr>\<rparr> = example_uv_mesh \<and>
   (\<exists>mesh mesh'.
      fst (bl2veraMesh triangles_as_given example_mesh) = Inr mesh \<and>
      gl_texcoords mesh = [] \<and> gl_tangents mesh = [] \<and>
      fst (bl2veraMesh triangles_as_given example_uv_mesh) = Inr mesh' \<and>
      gl_texcoords mesh' = [(0, 0), (1, 0), (1 / 2, 1)] \<and> length (gl_tangents mesh') = 1 \<and>
      gl_vertices mesh' = gl_vertices mesh \<and> gl_normals mesh' = gl_normals mesh \<and>
      gl_indices mesh' = gl_indices mesh)"
proof -
  have u: "uv_layers_active (data example_mesh) = None"
    by (simp add: example_mesh_def)
  have e: "example_mesh\<lparr>data := (data example_mesh)\<lparr>uv_layers_active :=
      Some [Vec2 0 0, Vec2 1 0, Vec2 (1 / 2) 1]\<rparr>\<rparr> = example_uv_mesh"
    by (simp add: example_mesh_def example_uv_mesh_def)
  have up: "[0..<3] = [0, Suc 0, 2]"
    by (simp add: upt_rec)
  obtain mesh' where m':
    "fst (bl2veraMesh triangles_as_given example_uv_mesh) = Inr mesh'"
    "gl_texcoords mesh' = [(0, 0), (1, 0), (1 / 2, 1)]" "length (gl_tangents mesh') = 1"
    by (simp add: bl2veraMesh_result uv_aligned_def example_uv_mesh_def example_vertices_def up)
  from mesh_without_uv_layer [OF u, of triangles_as_given]
  obtain mesh where m:
    "fst (bl2veraMesh triangles_as_given example_mesh) = Inr mesh"
    "gl_texcoords mesh = []" "gl_tangents mesh = []"
    "\<forall>uv_data mesh'.
        fst (bl2veraMesh triangles_as_given
               (example_mesh\<lparr>data := (data example_mesh)\<lparr>uv_layers_active :=
                  Some uv_data\<rparr>\<rparr>)) = Inr mesh' \<longrightarrow>
        gl_vertices mesh' = gl_vertices mesh \<and> gl_normals mesh' = gl_normals mesh \<and>
        gl_indices mesh' = gl_indices mesh"
    by blast
  from m(4) e m'(1) have
    "gl_vertices mesh' = gl_vertices mesh \<and> gl_normals mesh' = gl_normals mesh \<and>
     gl_indices mesh' = gl_indices mesh"
    by metis
  with u e m(1-3) m' show ?thesis by blast
qed

subsection \<open>Light converter\<close>

text \<open>
  C4, as the source has it. For every host light with local location (x, y, z) the
  emitted position is (-x, -z, -y): all three components negated, the second and
  third exchanged. The world matrix does not enter: the result is the same for every
  world matrix.
\<close>

theorem light_position_negated_and_swapped:
  "bl2veraLight \<lparr>matrix_world = W, location = Vec3 x y z\<rparr> =
     \<lparr>position = Some (- x, - z, - y)\<rparr> \<and>
   bl2veraLight (bl_light\<lparr>matrix_world := W\<rparr>) = bl2veraLight bl_light"
  by (simp add: bl2veraLight_def gl_Light_def setPosition_def)

text \<open>
  C4 as the specification words it fails on the source: the light at (1, 2, 3) is
  placed at (-1, -3, -2), not at (-1, -2, -3).
\<close>

theorem light_position_counterexample:
  "bl2veraLight example_light = \<lparr>position = Some (- 1, - 3, - 2)\<rparr> \<and>
   location example_light = Vec3 1 2 3 \<and>
   position (bl2veraLight example_light) \<noteq> Some (- 1, - 2, - 3)"
  by (simp add: bl2veraLight_def gl_Light_def setPosition_def example_light_def)

subsection \<open>File existence check\<close>

text \<open>
  C8. For every path, host path expansion and state of the operating system,
  \<open>file_exist\<close> returns a Boolean (no error escapes); it is true exactly when the
  expansion yields a path and opening that path for reading succeeds, false for every
  failure of either step, whatever the error. In both outcomes the open handles
  afterwards are the ones that were open before.
\<close>

theorem file_exist_true_iff_open_succeeds:
  "(fst (file_exist abspath os filename) \<longleftrightarrow>
      (\<exists>path file os'. abspath filename = Inr path \<and> py_open os path = Inr (file, os'))) \<and>
   (fst (file_exist abspath os filename) = False \<longleftrightarrow>
      (\<exists>e. abspath filename = Inl e) \<or>
      (\<exists>path e. abspath filename = Inr path \<and> py_open os path = Inl e)) \<and>
   open_handles (snd (file_exist abspath os filename)) = open_handles os \<and>
   open_error (snd (file_exist abspath os filename)) = open_error os"
  by (auto simp: file_exist_def py_open_def py_close_def Let_def
      split: sum.splits option.splits)

text \<open>
  The theorem on the example file system: the readable file is found, the missing
  file, the file without read permission and the path that cannot be expanded are not,
  and handle 0 is the only open handle afterwards, as before.
\<close>

theorem file_exist_true_iff_open_succeeds_witness:
  "fst (file_exist example_abspath example_os ''/tmp/shader.frag'') \<and>
   fst (file_exist example_abspath example_os ''/tmp/missing'') = False \<and>
   fst (file_exist example_abspath example_os ''/root/secret'') = False \<and>
   fst (file_exist example_abspath example_os []) = False \<and>
   open_handles (snd (file_exist example_abspath example_os ''/tmp/shader.frag'')) = [0] \<and>
   open_handles (snd (file_exist example_abspath example_os ''/tmp/missing'')) = [0]"
  using file_exist_true_iff_open_succeeds [of example_abspath example_os "''/tmp/shader.frag''"]
    file_exist_true_iff_open_succeeds [of example_abspath example_os "''/tmp/missing''"]
    file_exist_true_iff_open_succeeds [of example_abspath example_os "''/root/secret''"]
    file_exist_true_iff_open_succeeds [of example_abspath example_os "[]"]
  by (simp add: example_abspath_def example_os_def example_open_error_def py_open_def)

subsection \<open>Dependence on state outside the arguments\<close>




end
